theory Spec2Isabelle
  imports Main "HOL-Library.Sublist"
begin

section \<open>The movie gallery script \<^verbatim>\<open>entertainment_center.py\<close>\<close>

text \<open>
  The script builds six \<^verbatim>\<open>media.Movie\<close> objects from string literals, collects
  them in the list \<^verbatim>\<open>movies\<close> and hands that list to
  \<^verbatim>\<open>fresh_tomatoes.open_movies_page\<close>. Python objects are references, so the
  model keeps an explicit store: a reference is the position of the object in the
  list of all objects allocated so far, and the list only ever grows at its end.
\<close>

subsection \<open>Data\<close>

record Movie =
  title :: string
  storyline :: string
  poster_image_url :: string
  trailer_youtube_url :: string

type_synonym ref = nat

datatype error = InvalidMovieData

text \<open>What the script asks of the outside: calls of the renderer, with their argument.\<close>

datatype event = Open_movies_page "ref list"

record world =
  heap :: "Movie list"
  calls :: "event list"

definition init_world :: world where
  "init_world = \<lparr>heap = [], calls = []\<rparr>"

text \<open>Reading a reference; a reference that was never allocated reads as \<open>None\<close>.\<close>

definition deref :: "world \<Rightarrow> ref \<Rightarrow> Movie option" where
  "deref w r = (if r < length (heap w) then Some (heap w ! r) else None)"

text \<open>The objects allocated on the way from the world \<open>w0\<close> to the world \<open>w\<close>.\<close>

definition created :: "world \<Rightarrow> world \<Rightarrow> Movie list" where
  "created w0 w = drop (length (heap w0)) (heap w)"

subsection \<open>The two collaborators\<close>

text \<open>
  Modelled from the spec: the class \<^verbatim>\<open>media.Movie\<close> (the module
  \<^verbatim>\<open>media\<close> is imported by the script and is not among the sources). Its
  contract: given four strings (title, storyline, poster image URL, trailer URL), in
  this order, it produces an object exposing those four fields by name; it validates
  nothing and has no side effect. A call is modelled by the list of its positional
  arguments, as every call of the script passes positional arguments only; a call
  with missing (or surplus) fields is the construction-time failure
  \<open>InvalidMovieData\<close>. The new object is allocated at the end of the store.
\<close>

fun media_Movie :: "string list \<Rightarrow> world \<Rightarrow> error + (ref \<times> world)" where
  "media_Movie [t, s, p, y] w =
     Inr (length (heap w),
          w\<lparr>heap := heap w @ [\<lparr>title = t, storyline = s,
                               poster_image_url = p, trailer_youtube_url = y\<rparr>]\<rparr>)"
| "media_Movie _ w = Inl InvalidMovieData"

text \<open>
  Modelled from the spec: the renderer \<^verbatim>\<open>fresh_tomatoes.open_movies_page\<close>
  (an external collaborator, not among the sources). It accepts an ordered sequence
  of movie records and returns nothing the script uses. What it does with the
  sequence is not modelled: the call is recorded, with the sequence it received.
\<close>

definition open_movies_page :: "ref list \<Rightarrow> world \<Rightarrow> world" where
  "open_movies_page movies w = w\<lparr>calls := calls w @ [Open_movies_page movies]\<rparr>"

subsection \<open>The script\<close>

text \<open>Sequencing of statements that may fail: the first failure ends the run.\<close>

fun bind_result :: "error + 'a \<Rightarrow> ('a \<Rightarrow> error + 'b) \<Rightarrow> error + 'b" where
  "bind_result (Inl e) f = Inl e"
| "bind_result (Inr x) f = f x"

text \<open>The argument lists of the six constructor calls, lines 4 to 37.\<close>

definition toy_story_args :: "string list" where
  "toy_story_args =
    [''Toy Story'',
     ''A story of a boy and his toys that come to life'',
     ''http://upload.wikimedia.org/wikipedia/en/1/13/Toy_Story.jpg'',
     ''https://www.youtube.com/watch?v=KYz2wyBy3kc'']"

definition avatar_args :: "string list" where
  "avatar_args =
    [''Avatar'',
     ''A marine on an alien planet'',
     ''http://upload.wikimedia.org/wikipedia/en/b/b0/Avatar-Teaser-Poster.jpg'',
     ''https://www.youtube.com/watch?v=cRdxXPV9GNQ'']"

definition rurouni_kenshin_args :: "string list" where
  "rurouni_kenshin_args =
    [''Rurouni Kenshin'',
     ''The story of a wanderer named Himura Kenshin, formerly known as the assassin Hitokiri Battosai'',
     ''http://upload.wikimedia.org/wikipedia/en/f/f6/Rurouni_Kenshin_%282012_film%29_poster.jpg'',
     ''https://www.youtube.com/watch?v=lc_JmcRxdx8'']"

definition hunger_games_args :: "string list" where
  "hunger_games_args =
    [''The Hunger Games'',
     ''A real reality show'',
     ''http://upload.wikimedia.org/wikipedia/en/4/42/HungerGamesPoster.jpg'',
     ''https://www.youtube.com/watch?v=4S9a5V9ODuY'']"

definition taken_args :: "string list" where
  "taken_args =
    [''Taken'',
     ''A former CIA operative named Bryan Mills who sets about tracking down his daughter after she is kidnapped by human traffickers for sexual slavery while travelling in France'',
     ''http://upload.wikimedia.org/wikipedia/en/e/ed/Taken_film_poster.jpg'',
     ''https://www.youtube.com/watch?v=wCbDUREBwUg'']"

definition gone_girl_args :: "string list" where
  "gone_girl_args =
    [''Gone Girl'',
     ''A mystery about a man whose wife has gone missing and the events after'',
     ''http://upload.wikimedia.org/wikipedia/en/0/05/Gone_Girl_Poster.jpg'',
     ''https://www.youtube.com/watch?v=2-_-1nJf8Vg'']"

text \<open>
  The whole script: six constructions, each bound to its module-level name, the list
  \<^verbatim>\<open>movies\<close> of the six references, and the one call of the renderer.
\<close>

definition entertainment_center :: "world \<Rightarrow> error + world" where
  "entertainment_center w0 =
    bind_result (media_Movie toy_story_args w0) (\<lambda>(toy_story, w1).
    bind_result (media_Movie avatar_args w1) (\<lambda>(avatar, w2).
    bind_result (media_Movie rurouni_kenshin_args w2) (\<lambda>(rurouni_kenshin, w3).
    bind_result (media_Movie hunger_games_args w3) (\<lambda>(hunger_games, w4).
    bind_result (media_Movie taken_args w4) (\<lambda>(taken, w5).
    bind_result (media_Movie gone_girl_args w5) (\<lambda>(gone_girl, w6).
      let movies = [toy_story, avatar, rurouni_kenshin, hunger_games, taken, gone_girl]
      in Inr (open_movies_page movies w6)))))))"

subsection \<open>The call sites\<close>

text \<open>
  A Python call carries positional arguments and keyword arguments. The six constructor
  calls of the script are kept in this form, so that what they pass, and how, is data
  of the model.
\<close>

record call =
  positional :: "string list"
  keyword :: "(string \<times> string) list"

text \<open>
  Modelled from the spec: the parameters of the constructor of \<^verbatim>\<open>media.Movie\<close>
  (not among the sources), by the names and in the order of the record of the boundary
  call: title, storyline, poster_image_url, trailer_youtube_url.
\<close>

definition Movie_params :: "string list" where
  "Movie_params = [''title'', ''storyline'', ''poster_image_url'', ''trailer_youtube_url'']"

text \<open>
  Python's binding of the arguments of a call to parameters without defaults:
  positional arguments fill the parameters from the left, each keyword argument fills
  the parameter of its name. The call fails when there are more positional arguments
  than parameters, when a keyword is repeated, names no parameter or names one that a
  positional argument has filled, and when a parameter is left without a value.
\<close>

definition bind_args :: "string list \<Rightarrow> call \<Rightarrow> error + string list" where
  "bind_args params c =
     (let rest = drop (length (positional c)) params;
          names = map fst (keyword c)
      in if length params < length (positional c) then Inl InvalidMovieData
         else if \<not> distinct names then Inl InvalidMovieData
         else if \<not> list_all (\<lambda>n. n \<in> set rest) names then Inl InvalidMovieData
         else if \<not> list_all (\<lambda>p. p \<in> set names) rest then Inl InvalidMovieData
         else Inr (positional c @ map (\<lambda>p. the (map_of (keyword c) p)) rest))"

text \<open>A constructor call: the arguments are bound, then the object is built.\<close>

definition Movie_call :: "call \<Rightarrow> world \<Rightarrow> error + (ref \<times> world)" where
  "Movie_call c w = bind_result (bind_args Movie_params c) (\<lambda>args. media_Movie args w)"

text \<open>The six calls, lines 4 to 37: four positional arguments each, no keyword.\<close>

definition toy_story_call :: call where
  "toy_story_call = \<lparr>positional = toy_story_args, keyword = []\<rparr>"

definition avatar_call :: call where
  "avatar_call = \<lparr>positional = avatar_args, keyword = []\<rparr>"

definition rurouni_kenshin_call :: call where
  "rurouni_kenshin_call = \<lparr>positional = rurouni_kenshin_args, keyword = []\<rparr>"

definition hunger_games_call :: call where
  "hunger_games_call = \<lparr>positional = hunger_games_args, keyword = []\<rparr>"

definition taken_call :: call where
  "taken_call = \<lparr>positional = taken_args, keyword = []\<rparr>"

definition gone_girl_call :: call where
  "gone_girl_call = \<lparr>positional = gone_girl_args, keyword = []\<rparr>"

subsection \<open>Observations\<close>

text \<open>The record a constructor call builds, read back from the world the call returns.\<close>

definition constructed :: "string list \<Rightarrow> world \<Rightarrow> Movie option" where
  "constructed args w =
     (case media_Movie args w of Inl e \<Rightarrow> None | Inr (r, w') \<Rightarrow> deref w' r)"

text \<open>
  The constructor in the words of the design notes: a single constructor with four
  required fields, taken by position.
\<close>

definition positional_Movie :: "string \<Rightarrow> string \<Rightarrow> string \<Rightarrow> string \<Rightarrow> Movie" where
  "positional_Movie t s p y =
     \<lparr>title = t, storyline = s, poster_image_url = p, trailer_youtube_url = y\<rparr>"

section \<open>Properties\<close>

subsection \<open>Auxiliary facts\<close>

lemma entertainment_center_result:
  "entertainment_center w0 =
    Inr (w0\<lparr>heap := heap w0 @
        [\<lparr>title = toy_story_args ! 0, storyline = toy_story_args ! 1,
          poster_image_url = toy_story_args ! 2, trailer_youtube_url = toy_story_args ! 3\<rparr>,
         \<lparr>title = avatar_args ! 0, storyline = avatar_args ! 1,
          poster_image_url = avatar_args ! 2, trailer_youtube_url = avatar_args ! 3\<rparr>,
         \<lparr>title = rurouni_kenshin_args ! 0, storyline = rurouni_kenshin_args ! 1,
          poster_image_url = rurouni_kenshin_args ! 2,
          trailer_youtube_url = rurouni_kenshin_args ! 3\<rparr>,
         \<lparr>title = hunger_games_args ! 0, storyline = hunger_games_args ! 1,
          poster_image_url = hunger_games_args ! 2, trailer_youtube_url = hunger_games_args ! 3\<rparr>,
         \<lparr>title = taken_args ! 0, storyline = taken_args ! 1,
          poster_image_url = taken_args ! 2, trailer_youtube_url = taken_args ! 3\<rparr>,
         \<lparr>title = gone_girl_args ! 0, storyline = gone_girl_args ! 1,
          poster_image_url = gone_girl_args ! 2, trailer_youtube_url = gone_girl_args ! 3\<rparr>],
      calls := calls w0 @
        [Open_movies_page [length (heap w0), length (heap w0) + 1, length (heap w0) + 2,
           length (heap w0) + 3, length (heap w0) + 4, length (heap w0) + 5]]\<rparr>)"
  by (simp add: entertainment_center_def open_movies_page_def toy_story_args_def avatar_args_def
      rurouni_kenshin_args_def hunger_games_args_def taken_args_def gone_girl_args_def)

lemma deref_heap_cong: "heap w = heap w' \<Longrightarrow> deref w r = deref w' r"
  by (simp add: deref_def)

lemma args_length:
  "length toy_story_args = 4" "length avatar_args = 4" "length rurouni_kenshin_args = 4"
  "length hunger_games_args = 4" "length taken_args = 4" "length gone_girl_args = 4"
  by (simp_all add: toy_story_args_def avatar_args_def rurouni_kenshin_args_def
      hunger_games_args_def taken_args_def gone_girl_args_def)

lemma media_Movie_args:
  assumes "length args = 4"
  shows "media_Movie args w =
     Inr (length (heap w),
          w\<lparr>heap := heap w @ [\<lparr>title = args ! 0, storyline = args ! 1,
                 poster_image_url = args ! 2, trailer_youtube_url = args ! 3\<rparr>]\<rparr>)"
proof -
  from assms obtain t s p y where "args = [t, s, p, y]"
    by (auto simp: length_Suc_conv eval_nat_numeral)
  then show ?thesis by simp
qed

lemma created_entertainment_center:
  "entertainment_center w0 = Inr w \<Longrightarrow> created w0 w =
        [\<lparr>title = toy_story_args ! 0, storyline = toy_story_args ! 1,
          poster_image_url = toy_story_args ! 2, trailer_youtube_url = toy_story_args ! 3\<rparr>,
         \<lparr>title = avatar_args ! 0, storyline = avatar_args ! 1,
          poster_image_url = avatar_args ! 2, trailer_youtube_url = avatar_args ! 3\<rparr>,
         \<lparr>title = rurouni_kenshin_args ! 0, storyline = rurouni_kenshin_args ! 1,
          poster_image_url = rurouni_kenshin_args ! 2,
          trailer_youtube_url = rurouni_kenshin_args ! 3\<rparr>,
         \<lparr>title = hunger_games_args ! 0, storyline = hunger_games_args ! 1,
          poster_image_url = hunger_games_args ! 2, trailer_youtube_url = hunger_games_args ! 3\<rparr>,
         \<lparr>title = taken_args ! 0, storyline = taken_args ! 1,
          poster_image_url = taken_args ! 2, trailer_youtube_url = taken_args ! 3\<rparr>,
         \<lparr>title = gone_girl_args ! 0, storyline = gone_girl_args ! 1,
          poster_image_url = gone_girl_args ! 2, trailer_youtube_url = gone_girl_args ! 3\<rparr>]"
  by (auto simp: entertainment_center_result created_def)

lemma Movie_call_positional:
  assumes "length (positional c) = 4" and "keyword c = []"
  shows "Movie_call c w = media_Movie (positional c) w"
  using assms by (simp add: Movie_call_def bind_args_def Movie_params_def)

lemma Movie_call_keyword_example:
  "Movie_call \<lparr>positional = [''a'', ''b''],
       keyword = [(''trailer_youtube_url'', ''d''), (''poster_image_url'', ''c'')]\<rparr> init_world =
     media_Movie [''a'', ''b'', ''c'', ''d''] init_world"
  by (simp add: Movie_call_def bind_args_def Movie_params_def)

lemma Movie_call_rejects:
  "Movie_call \<lparr>positional = [''a'', ''b'', ''c''], keyword = []\<rparr> w = Inl InvalidMovieData"
  "Movie_call \<lparr>positional = [''a'', ''b'', ''c'', ''d''],
       keyword = [(''title'', ''e'')]\<rparr> w = Inl InvalidMovieData"
  "Movie_call \<lparr>positional = [''a'', ''b'', ''c''],
       keyword = [(''year'', ''d'')]\<rparr> w = Inl InvalidMovieData"
  by (simp_all add: Movie_call_def bind_args_def Movie_params_def)

subsection \<open>The claims\<close>

text \<open>
  Claim C1: the sequence handed to the renderer holds, in the order of their
  construction, the six records created by the script and nothing else; their titles, in
  this order, are Toy Story, Avatar, Rurouni Kenshin, The Hunger Games, Taken and Gone
  Girl.
\<close>

theorem movies_authoring_order:
  "\<exists>w rs. entertainment_center w0 = Inr w \<and>
     calls w = calls w0 @ [Open_movies_page rs] \<and> length rs = 6 \<and>
     map (deref w) rs = map Some (created w0 w) \<and>
     map title (created w0 w) =
       [''Toy Story'', ''Avatar'', ''Rurouni Kenshin'', ''The Hunger Games'', ''Taken'',
        ''Gone Girl'']"
  by (simp add: entertainment_center_result created_def deref_def nth_append
      toy_story_args_def avatar_args_def rurouni_kenshin_args_def hunger_games_args_def
      taken_args_def gone_girl_args_def)

text \<open>
  Claim C2: in the run of the script from the empty world, the record built from the
  four Toy Story strings exposes exactly these four values, its reference is the first
  element of the six-element sequence, and the renderer is called exactly once, with
  that sequence.
\<close>

theorem end_to_end_toy_story:
  "\<exists>r w1 rs w.
     media_Movie [''Toy Story'',
        ''A story of a boy and his toys that come to life'',
        ''http://upload.wikimedia.org/wikipedia/en/1/13/Toy_Story.jpg'',
        ''https://www.youtube.com/watch?v=KYz2wyBy3kc''] init_world = Inr (r, w1) \<and>
     deref w1 r =
       Some \<lparr>title = ''Toy Story'',
             storyline = ''A story of a boy and his toys that come to life'',
             poster_image_url = ''http://upload.wikimedia.org/wikipedia/en/1/13/Toy_Story.jpg'',
             trailer_youtube_url = ''https://www.youtube.com/watch?v=KYz2wyBy3kc''\<rparr> \<and>
     entertainment_center init_world = Inr w \<and>
     calls w = [Open_movies_page (r # rs)] \<and> length (r # rs) = 6 \<and>
     deref w r = deref w1 r"
  by (simp add: entertainment_center_result init_world_def deref_def toy_story_args_def)

text \<open>
  Claim C3: each of the six records has exactly the four field values written in the
  source, and a construction from the same arguments in any other world
  \<open>w'\<close> assigns the same strings to the same fields.
\<close>

theorem six_records_verbatim:
  "\<exists>w. entertainment_center w0 = Inr w \<and>
     created w0 w =
       [\<lparr>title = ''Toy Story'',
         storyline = ''A story of a boy and his toys that come to life'',
         poster_image_url = ''http://upload.wikimedia.org/wikipedia/en/1/13/Toy_Story.jpg'',
         trailer_youtube_url = ''https://www.youtube.com/watch?v=KYz2wyBy3kc''\<rparr>,
        \<lparr>title = ''Avatar'',
         storyline = ''A marine on an alien planet'',
         poster_image_url =
           ''http://upload.wikimedia.org/wikipedia/en/b/b0/Avatar-Teaser-Poster.jpg'',
         trailer_youtube_url = ''https://www.youtube.com/watch?v=cRdxXPV9GNQ''\<rparr>,
        \<lparr>title = ''Rurouni Kenshin'',
         storyline = ''The story of a wanderer named Himura Kenshin, formerly known as the assassin Hitokiri Battosai'',
         poster_image_url =
           ''http://upload.wikimedia.org/wikipedia/en/f/f6/Rurouni_Kenshin_%282012_film%29_poster.jpg'',
         trailer_youtube_url = ''https://www.youtube.com/watch?v=lc_JmcRxdx8''\<rparr>,
        \<lparr>title = ''The Hunger Games'',
         storyline = ''A real reality show'',
         poster_image_url =
           ''http://upload.wikimedia.org/wikipedia/en/4/42/HungerGamesPoster.jpg'',
         trailer_youtube_url = ''https://www.youtube.com/watch?v=4S9a5V9ODuY''\<rparr>,
        \<lparr>title = ''Taken'',
         storyline = ''A former CIA operative named Bryan Mills who sets about tracking down his daughter after she is kidnapped by human traffickers for sexual slavery while travelling in France'',
         poster_image_url =
           ''http://upload.wikimedia.org/wikipedia/en/e/ed/Taken_film_poster.jpg'',
         trailer_youtube_url = ''https://www.youtube.com/watch?v=wCbDUREBwUg''\<rparr>,
        \<lparr>title = ''Gone Girl'',
         storyline = ''A mystery about a man whose wife has gone missing and the events after'',
         poster_image_url =
           ''http://upload.wikimedia.org/wikipedia/en/0/05/Gone_Girl_Poster.jpg'',
         trailer_youtube_url = ''https://www.youtube.com/watch?v=2-_-1nJf8Vg''\<rparr>] \<and>
     map (\<lambda>args. constructed args w')
       [toy_story_args, avatar_args, rurouni_kenshin_args, hunger_games_args, taken_args,
        gone_girl_args] = map Some (created w0 w)"
  by (simp add: entertainment_center_result created_def constructed_def deref_def toy_story_args_def
      avatar_args_def rurouni_kenshin_args_def hunger_games_args_def taken_args_def
      gone_girl_args_def)

text \<open>
  Claim C4: every one of the six records the script constructs has a non-empty title,
  storyline, poster image URL and trailer URL.
\<close>

theorem fields_nonempty:
  "\<exists>w. entertainment_center w0 = Inr w \<and> length (created w0 w) = 6 \<and>
     (\<forall>m \<in> set (created w0 w).
        title m \<noteq> [] \<and> storyline m \<noteq> [] \<and> poster_image_url m \<noteq> [] \<and>
        trailer_youtube_url m \<noteq> [])"
  by (simp add: entertainment_center_result created_def toy_story_args_def
      avatar_args_def rurouni_kenshin_args_def hunger_games_args_def taken_args_def
      gone_girl_args_def)

theorem fields_nonempty_witness:
  "\<exists>w m. entertainment_center init_world = Inr w \<and> m \<in> set (created init_world w) \<and>
     title m = ''Toy Story'' \<and> storyline m \<noteq> [] \<and> poster_image_url m \<noteq> [] \<and>
     trailer_youtube_url m \<noteq> []"
proof -
  from fields_nonempty [of init_world] obtain w where w: "entertainment_center init_world = Inr w"
    and ne: "\<forall>m \<in> set (created init_world w).
        title m \<noteq> [] \<and> storyline m \<noteq> [] \<and> poster_image_url m \<noteq> [] \<and>
        trailer_youtube_url m \<noteq> []"
    by (elim exE conjE)
  let ?m = "\<lparr>title = toy_story_args ! 0, storyline = toy_story_args ! 1,
          poster_image_url = toy_story_args ! 2, trailer_youtube_url = toy_story_args ! 3\<rparr>"
  from w have m: "?m \<in> set (created init_world w)"
    by (simp add: created_entertainment_center)
  have t: "title ?m = ''Toy Story''"
    by (simp add: toy_story_args_def)
  from ne m have "storyline ?m \<noteq> [] \<and> poster_image_url ?m \<noteq> [] \<and> trailer_youtube_url ?m \<noteq> []"
    by blast
  with w m t show ?thesis by blast
qed

text \<open>
  Claim C5: a construction from four strings, whatever they are, succeeds, changes
  nothing but the store, which gains the new record at its end, and leaves every
  existing record and the recorded calls as they were; in particular each of the six
  argument lists of the script is accepted.
\<close>

theorem construction_never_rejects:
  "(\<exists>r w'. media_Movie [t, s, p, y] w = Inr (r, w') \<and>
      w' = w\<lparr>heap := heap w @ [\<lparr>title = t, storyline = s, poster_image_url = p,
                                  trailer_youtube_url = y\<rparr>]\<rparr> \<and>
      calls w' = calls w \<and>
      (\<forall>r' < length (heap w). deref w' r' = deref w r')) \<and>
   (\<forall>args \<in> set [toy_story_args, avatar_args, rurouni_kenshin_args, hunger_games_args,
        taken_args, gone_girl_args].
      \<exists>r w'. media_Movie args w = Inr (r, w') \<and> calls w' = calls w \<and>
        (\<forall>r' < length (heap w). deref w' r' = deref w r'))"
  by (simp add: media_Movie_args args_length deref_def nth_append)

theorem construction_never_rejects_witness:
  "(\<exists>r w'. media_Movie [[], [], [], []] init_world = Inr (r, w') \<and> calls w' = []) \<and>
   (\<exists>r w'. media_Movie gone_girl_args init_world = Inr (r, w') \<and> calls w' = [])"
proof -
  have "gone_girl_args \<in> set [toy_story_args, avatar_args, rurouni_kenshin_args,
      hunger_games_args, taken_args, gone_girl_args]"
    by simp
  with construction_never_rejects [of "[]" "[]" "[]" "[]" init_world]
  show ?thesis
    by (simp add: init_world_def)
qed

text \<open>
  Claim C6: two constructions from the same four strings give two different references
  whose records are equal on all four fields; overwriting one of the two records leaves
  the other as it was.
\<close>

theorem construct_twice:
  "\<exists>r1 w1 r2 w2 m.
     media_Movie [t, s, p, y] w = Inr (r1, w1) \<and>
     media_Movie [t, s, p, y] w1 = Inr (r2, w2) \<and>
     r1 \<noteq> r2 \<and>
     deref w2 r1 = Some m \<and> deref w2 r2 = Some m \<and>
     title m = t \<and> storyline m = s \<and> poster_image_url m = p \<and> trailer_youtube_url m = y \<and>
     deref (w2\<lparr>heap := (heap w2)[r1 := m']\<rparr>) r2 = Some m \<and>
     deref (w2\<lparr>heap := (heap w2)[r2 := m']\<rparr>) r1 = Some m"
  by (simp add: deref_def nth_append)

text \<open>
  Claim C7: each of the six records is allocated once, at a reference that held nothing
  before, and reads the same in every world from its construction up to the world in
  which the renderer is called.
\<close>

theorem records_never_mutated:
  "\<exists>toy_story w1 avatar w2 rurouni_kenshin w3 hunger_games w4 taken w5 gone_girl w6.
     media_Movie toy_story_args w0 = Inr (toy_story, w1) \<and>
     media_Movie avatar_args w1 = Inr (avatar, w2) \<and>
     media_Movie rurouni_kenshin_args w2 = Inr (rurouni_kenshin, w3) \<and>
     media_Movie hunger_games_args w3 = Inr (hunger_games, w4) \<and>
     media_Movie taken_args w4 = Inr (taken, w5) \<and>
     media_Movie gone_girl_args w5 = Inr (gone_girl, w6) \<and>
     entertainment_center w0 =
       Inr (open_movies_page
              [toy_story, avatar, rurouni_kenshin, hunger_games, taken, gone_girl] w6) \<and>
     distinct [toy_story, avatar, rurouni_kenshin, hunger_games, taken, gone_girl] \<and>
     (\<forall>r \<in> set [toy_story, avatar, rurouni_kenshin, hunger_games, taken, gone_girl].
        deref w0 r = None) \<and>
     [deref w1 toy_story, deref w2 avatar, deref w3 rurouni_kenshin, deref w4 hunger_games,
      deref w5 taken, deref w6 gone_girl] = map Some (created w0 w6) \<and>
     (\<forall>w \<in> set [w1, w2, w3, w4, w5, w6]. deref w toy_story = deref w1 toy_story) \<and>
     (\<forall>w \<in> set [w2, w3, w4, w5, w6]. deref w avatar = deref w2 avatar) \<and>
     (\<forall>w \<in> set [w3, w4, w5, w6]. deref w rurouni_kenshin = deref w3 rurouni_kenshin) \<and>
     (\<forall>w \<in> set [w4, w5, w6]. deref w hunger_games = deref w4 hunger_games) \<and>
     (\<forall>w \<in> set [w5, w6]. deref w taken = deref w5 taken)"
  by (simp add: entertainment_center_result media_Movie_args args_length open_movies_page_def
      created_def deref_def nth_append)

theorem records_never_mutated_witness:
  "\<exists>w1 w6 movies.
     media_Movie toy_story_args init_world = Inr (0, w1) \<and>
     entertainment_center init_world = Inr (open_movies_page movies w6) \<and>
     map_option title (deref w1 0) = Some ''Toy Story'' \<and>
     deref w6 0 = deref w1 0"
proof -
  from records_never_mutated [of init_world]
  obtain toy_story w1 avatar w2 rurouni_kenshin w3 hunger_games w4 taken w5 gone_girl w6
    where c1: "media_Movie toy_story_args init_world = Inr (toy_story, w1)"
      and m: "entertainment_center init_world =
       Inr (open_movies_page
              [toy_story, avatar, rurouni_kenshin, hunger_games, taken, gone_girl] w6)"
      and u: "\<forall>w \<in> set [w1, w2, w3, w4, w5, w6]. deref w toy_story = deref w1 toy_story"
    by (elim exE conjE)
  from c1 have r: "toy_story = 0"
    and t: "map_option title (deref w1 0) = Some ''Toy Story''"
    by (auto simp: toy_story_args_def init_world_def deref_def)
  from u have "deref w6 toy_story = deref w1 toy_story"
    by simp
  with c1 m r t show ?thesis
    by blast
qed

text \<open>
  Claim C8: in each of the six records the poster image URL starts with
  \<^verbatim>\<open>http://upload.wikimedia.org/wikipedia/en/\<close> and the trailer
  URL starts with \<^verbatim>\<open>https://www.youtube.com/watch?v=\<close>.
\<close>

theorem url_prefixes:
  "\<exists>w. entertainment_center w0 = Inr w \<and> length (created w0 w) = 6 \<and>
     (\<forall>m \<in> set (created w0 w).
        prefix ''http://upload.wikimedia.org/wikipedia/en/'' (poster_image_url m) \<and>
        prefix ''https://www.youtube.com/watch?v='' (trailer_youtube_url m))"
  by (simp add: entertainment_center_result created_def toy_story_args_def
      avatar_args_def rurouni_kenshin_args_def hunger_games_args_def taken_args_def
      gone_girl_args_def)

theorem url_prefixes_witness:
  "\<exists>w m. entertainment_center init_world = Inr w \<and> m \<in> set (created init_world w) \<and>
     title m = ''Gone Girl'' \<and>
     prefix ''http://upload.wikimedia.org/wikipedia/en/'' (poster_image_url m) \<and>
     prefix ''https://www.youtube.com/watch?v='' (trailer_youtube_url m)"
proof -
  from url_prefixes [of init_world] obtain w where w: "entertainment_center init_world = Inr w"
    and pre: "\<forall>m \<in> set (created init_world w).
        prefix ''http://upload.wikimedia.org/wikipedia/en/'' (poster_image_url m) \<and>
        prefix ''https://www.youtube.com/watch?v='' (trailer_youtube_url m)"
    by (elim exE conjE)
  let ?m = "\<lparr>title = gone_girl_args ! 0, storyline = gone_girl_args ! 1,
          poster_image_url = gone_girl_args ! 2, trailer_youtube_url = gone_girl_args ! 3\<rparr>"
  from w have m: "?m \<in> set (created init_world w)"
    by (simp add: created_entertainment_center)
  have t: "title ?m = ''Gone Girl''"
    by (simp add: gone_girl_args_def)
  from pre m have "prefix ''http://upload.wikimedia.org/wikipedia/en/'' (poster_image_url ?m) \<and>
        prefix ''https://www.youtube.com/watch?v='' (trailer_youtube_url ?m)"
    by blast
  with w m t show ?thesis by blast
qed

text \<open>
  Claim C9: the six records have pairwise distinct titles, poster URLs and trailer URLs,
  and the sequence handed to the renderer repeats neither a reference nor a record.
\<close>

theorem no_duplicate_records:
  "\<exists>w rs. entertainment_center w0 = Inr w \<and> calls w = calls w0 @ [Open_movies_page rs] \<and>
     map (deref w) rs = map Some (created w0 w) \<and> length rs = 6 \<and>
     distinct (map title (created w0 w)) \<and>
     distinct (map poster_image_url (created w0 w)) \<and>
     distinct (map trailer_youtube_url (created w0 w)) \<and>
     distinct rs \<and> distinct (map (deref w) rs)"
  by (simp add: entertainment_center_result created_def deref_def nth_append toy_story_args_def
      avatar_args_def rurouni_kenshin_args_def hunger_games_args_def taken_args_def
      gone_girl_args_def)

text \<open>
  Claim C10: each of the six constructor calls passes no keyword argument and exactly
  four positional arguments, which are, in this order, the title, the storyline, the
  poster image URL and the trailer URL written in the source; under Python's binding of
  arguments each call builds what the constructor with four positional fields builds
  from them, and these are the six records of the script, the first argument as title,
  the second as storyline, the third as poster image URL, the fourth as trailer URL.
\<close>

theorem four_positional_arguments:
  "map positional
     [toy_story_call, avatar_call, rurouni_kenshin_call, hunger_games_call, taken_call,
      gone_girl_call] =
     [[''Toy Story'',
       ''A story of a boy and his toys that come to life'',
       ''http://upload.wikimedia.org/wikipedia/en/1/13/Toy_Story.jpg'',
       ''https://www.youtube.com/watch?v=KYz2wyBy3kc''],
      [''Avatar'',
       ''A marine on an alien planet'',
       ''http://upload.wikimedia.org/wikipedia/en/b/b0/Avatar-Teaser-Poster.jpg'',
       ''https://www.youtube.com/watch?v=cRdxXPV9GNQ''],
      [''Rurouni Kenshin'',
       ''The story of a wanderer named Himura Kenshin, formerly known as the assassin Hitokiri Battosai'',
       ''http://upload.wikimedia.org/wikipedia/en/f/f6/Rurouni_Kenshin_%282012_film%29_poster.jpg'',
       ''https://www.youtube.com/watch?v=lc_JmcRxdx8''],
      [''The Hunger Games'',
       ''A real reality show'',
       ''http://upload.wikimedia.org/wikipedia/en/4/42/HungerGamesPoster.jpg'',
       ''https://www.youtube.com/watch?v=4S9a5V9ODuY''],
      [''Taken'',
       ''A former CIA operative named Bryan Mills who sets about tracking down his daughter after she is kidnapped by human traffickers for sexual slavery while travelling in France'',
       ''http://upload.wikimedia.org/wikipedia/en/e/ed/Taken_film_poster.jpg'',
       ''https://www.youtube.com/watch?v=wCbDUREBwUg''],
      [''Gone Girl'',
       ''A mystery about a man whose wife has gone missing and the events after'',
       ''http://upload.wikimedia.org/wikipedia/en/0/05/Gone_Girl_Poster.jpg'',
       ''https://www.youtube.com/watch?v=2-_-1nJf8Vg'']] \<and>
   (\<forall>c \<in> set [toy_story_call, avatar_call, rurouni_kenshin_call, hunger_games_call,
        taken_call, gone_girl_call].
      keyword c = [] \<and> length (positional c) = 4 \<and>
      Movie_call c w =
        Inr (length (heap w),
             w\<lparr>heap := heap w @
                 [positional_Movie (positional c ! 0) (positional c ! 1) (positional c ! 2)
                    (positional c ! 3)]\<rparr>)) \<and>
   (\<exists>w'. entertainment_center w0 = Inr w' \<and>
      created w0 w' =
        map (\<lambda>c. positional_Movie (positional c ! 0) (positional c ! 1) (positional c ! 2)
               (positional c ! 3))
          [toy_story_call, avatar_call, rurouni_kenshin_call, hunger_games_call, taken_call,
           gone_girl_call] \<and>
      map title (created w0 w') =
        [''Toy Story'', ''Avatar'', ''Rurouni Kenshin'', ''The Hunger Games'', ''Taken'',
         ''Gone Girl''] \<and>
      map storyline (created w0 w') =
        map (\<lambda>c. positional c ! 1)
          [toy_story_call, avatar_call, rurouni_kenshin_call, hunger_games_call, taken_call,
           gone_girl_call] \<and>
      map poster_image_url (created w0 w') =
        map (\<lambda>c. positional c ! 2)
          [toy_story_call, avatar_call, rurouni_kenshin_call, hunger_games_call, taken_call,
           gone_girl_call] \<and>
      map trailer_youtube_url (created w0 w') =
        map (\<lambda>c. positional c ! 3)
          [toy_story_call, avatar_call, rurouni_kenshin_call, hunger_games_call, taken_call,
           gone_girl_call])"
proof (intro conjI)
  show "map positional
     [toy_story_call, avatar_call, rurouni_kenshin_call, hunger_games_call, taken_call,
      gone_girl_call] =
     [[''Toy Story'',
       ''A story of a boy and his toys that come to life'',
       ''http://upload.wikimedia.org/wikipedia/en/1/13/Toy_Story.jpg'',
       ''https://www.youtube.com/watch?v=KYz2wyBy3kc''],
      [''Avatar'',
       ''A marine on an alien planet'',
       ''http://upload.wikimedia.org/wikipedia/en/b/b0/Avatar-Teaser-Poster.jpg'',
       ''https://www.youtube.com/watch?v=cRdxXPV9GNQ''],
      [''Rurouni Kenshin'',
       ''The story of a wanderer named Himura Kenshin, formerly known as the assassin Hitokiri Battosai'',
       ''http://upload.wikimedia.org/wikipedia/en/f/f6/Rurouni_Kenshin_%282012_film%29_poster.jpg'',
       ''https://www.youtube.com/watch?v=lc_JmcRxdx8''],
      [''The Hunger Games'',
       ''A real reality show'',
       ''http://upload.wikimedia.org/wikipedia/en/4/42/HungerGamesPoster.jpg'',
       ''https://www.youtube.com/watch?v=4S9a5V9ODuY''],
      [''Taken'',
       ''A former CIA operative named Bryan Mills who sets about tracking down his daughter after she is kidnapped by human traffickers for sexual slavery while travelling in France'',
       ''http://upload.wikimedia.org/wikipedia/en/e/ed/Taken_film_poster.jpg'',
       ''https://www.youtube.com/watch?v=wCbDUREBwUg''],
      [''Gone Girl'',
       ''A mystery about a man whose wife has gone missing and the events after'',
       ''http://upload.wikimedia.org/wikipedia/en/0/05/Gone_Girl_Poster.jpg'',
       ''https://www.youtube.com/watch?v=2-_-1nJf8Vg'']]"
    by (simp add: toy_story_call_def avatar_call_def rurouni_kenshin_call_def
        hunger_games_call_def taken_call_def gone_girl_call_def toy_story_args_def
        avatar_args_def rurouni_kenshin_args_def hunger_games_args_def taken_args_def
        gone_girl_args_def)
next
  show "\<forall>c \<in> set [toy_story_call, avatar_call, rurouni_kenshin_call, hunger_games_call,
        taken_call, gone_girl_call].
      keyword c = [] \<and> length (positional c) = 4 \<and>
      Movie_call c w =
        Inr (length (heap w),
             w\<lparr>heap := heap w @
                 [positional_Movie (positional c ! 0) (positional c ! 1) (positional c ! 2)
                    (positional c ! 3)]\<rparr>)"
    by (simp add: toy_story_call_def avatar_call_def rurouni_kenshin_call_def
        hunger_games_call_def taken_call_def gone_girl_call_def Movie_call_positional
        media_Movie_args args_length positional_Movie_def)
next
  show "\<exists>w'. entertainment_center w0 = Inr w' \<and>
      created w0 w' =
        map (\<lambda>c. positional_Movie (positional c ! 0) (positional c ! 1) (positional c ! 2)
               (positional c ! 3))
          [toy_story_call, avatar_call, rurouni_kenshin_call, hunger_games_call, taken_call,
           gone_girl_call] \<and>
      map title (created w0 w') =
        [''Toy Story'', ''Avatar'', ''Rurouni Kenshin'', ''The Hunger Games'', ''Taken'',
         ''Gone Girl''] \<and>
      map storyline (created w0 w') =
        map (\<lambda>c. positional c ! 1)
          [toy_story_call, avatar_call, rurouni_kenshin_call, hunger_games_call, taken_call,
           gone_girl_call] \<and>
      map poster_image_url (created w0 w') =
        map (\<lambda>c. positional c ! 2)
          [toy_story_call, avatar_call, rurouni_kenshin_call, hunger_games_call, taken_call,
           gone_girl_call] \<and>
      map trailer_youtube_url (created w0 w') =
        map (\<lambda>c. positional c ! 3)
          [toy_story_call, avatar_call, rurouni_kenshin_call, hunger_games_call, taken_call,
           gone_girl_call]"
    by (simp add: entertainment_center_result created_def positional_Movie_def
        toy_story_call_def avatar_call_def rurouni_kenshin_call_def
        hunger_games_call_def taken_call_def gone_girl_call_def)
       (simp add: toy_story_args_def avatar_args_def rurouni_kenshin_args_def
        hunger_games_args_def taken_args_def gone_girl_args_def)
qed

theorem four_positional_arguments_witness:
  "keyword toy_story_call = [] \<and>
   positional toy_story_call =
     [''Toy Story'',
      ''A story of a boy and his toys that come to life'',
      ''http://upload.wikimedia.org/wikipedia/en/1/13/Toy_Story.jpg'',
      ''https://www.youtube.com/watch?v=KYz2wyBy3kc''] \<and>
   Movie_call toy_story_call init_world =
     Inr (0, \<lparr>heap = [positional_Movie ''Toy Story''
        ''A story of a boy and his toys that come to life''
        ''http://upload.wikimedia.org/wikipedia/en/1/13/Toy_Story.jpg''
        ''https://www.youtube.com/watch?v=KYz2wyBy3kc''], calls = []\<rparr>)"
proof -
  have "toy_story_call \<in> set [toy_story_call, avatar_call, rurouni_kenshin_call,
      hunger_games_call, taken_call, gone_girl_call]"
    by simp
  with four_positional_arguments [of init_world init_world]
  have "keyword toy_story_call = [] \<and>
      Movie_call toy_story_call init_world =
        Inr (length (heap init_world),
             init_world\<lparr>heap := heap init_world @
                 [positional_Movie (positional toy_story_call ! 0)
                    (positional toy_story_call ! 1) (positional toy_story_call ! 2)
                    (positional toy_story_call ! 3)]\<rparr>)"
    by blast
  then show ?thesis
    by (simp add: init_world_def toy_story_call_def toy_story_args_def)
qed

end
